theory Spec2Isabelle
  imports Complex_Main
begin

section \<open>Python values\<close>

text \<open>
  The program is dynamically typed: a configuration field, a history entry or a loaded
  document holds whatever value was put there. Values are modelled by \<open>pyval\<close>; a
  \<open>dict\<close> with string keys is an association list in insertion order. A \<open>char\<close>
  stands for one character of a Python \<open>str\<close>, so \<open>length\<close> is Python's \<open>len\<close>.
  A float is the real number it denotes, or one of the three non-finite values.
\<close>

datatype pyfloat = Finite real | PosInf | NegInf | NaN

datatype pyval =
    PNone
  | PBool bool
  | PInt int
  | PFloat pyfloat
  | PStr string
  | PList "pyval list"
  | PDict "(string \<times> pyval) list"

datatype exn =
    KeyError string
  | TypeError
  | IndexError
  | ValueError
  | EOFError
  | FileNotFoundError
  | PermissionError
  | JSONDecodeError
  | APIError string

text \<open>Truthiness, as used by \<open>x or y\<close> and \<open>if x:\<close>.\<close>

fun py_truthy :: "pyval \<Rightarrow> bool" where
  "py_truthy PNone = False"
| "py_truthy (PBool b) = b"
| "py_truthy (PInt n) = (n \<noteq> 0)"
| "py_truthy (PFloat f) = (f \<noteq> Finite 0)"
| "py_truthy (PStr s) = (s \<noteq> [])"
| "py_truthy (PList xs) = (xs \<noteq> [])"
| "py_truthy (PDict kvs) = (kvs \<noteq> [])"

definition py_or :: "pyval \<Rightarrow> pyval \<Rightarrow> pyval" where
  "py_or a b = (if py_truthy a then a else b)"

text \<open>\<open>d[k]\<close> for a string key \<open>k\<close>: a missing key raises KeyError, a value that is
  not a dict raises TypeError.\<close>

fun py_getitem :: "pyval \<Rightarrow> string \<Rightarrow> exn + pyval" where
  "py_getitem (PDict kvs) k =
     (case map_of kvs k of None \<Rightarrow> Inl (KeyError k) | Some v \<Rightarrow> Inr v)"
| "py_getitem _ k = Inl TypeError"

text \<open>\<open>d.get(k, default)\<close> on a dict.\<close>

fun py_get :: "pyval \<Rightarrow> string \<Rightarrow> pyval \<Rightarrow> exn + pyval" where
  "py_get (PDict kvs) k d = (case map_of kvs k of None \<Rightarrow> Inr d | Some v \<Rightarrow> Inr v)"
| "py_get _ k d = Inl TypeError"

text \<open>\<open>d[k] = v\<close> on a dict: an existing key keeps its place, a new key goes last.\<close>

fun dict_set :: "string \<Rightarrow> pyval \<Rightarrow> (string \<times> pyval) list \<Rightarrow> (string \<times> pyval) list" where
  "dict_set k v [] = [(k, v)]"
| "dict_set k v ((k', v') # kvs) =
     (if k' = k then (k, v) # kvs else (k', v') # dict_set k v kvs)"

text \<open>What \<open>list.extend(x)\<close> iterates over: the items of a list, the characters of a
  string, the keys of a dict; anything else raises TypeError (\<open>None\<close> here).\<close>

fun py_iter :: "pyval \<Rightarrow> pyval list option" where
  "py_iter (PList xs) = Some xs"
| "py_iter (PStr s) = Some (map (\<lambda>c. PStr [c]) s)"
| "py_iter (PDict kvs) = Some (map (\<lambda>kv. PStr (fst kv)) kvs)"
| "py_iter _ = None"

text \<open>\<open>str.strip()\<close> and \<open>str.lower()\<close> on the characters below 256.\<close>

definition py_isspace :: "char \<Rightarrow> bool" where
  "py_isspace c = (let n = (of_char c :: nat) in
     (9 \<le> n \<and> n \<le> 13) \<or> (28 \<le> n \<and> n \<le> 32) \<or> n = 133 \<or> n = 160)"

definition py_strip :: "string \<Rightarrow> string" where
  "py_strip s = rev (dropWhile py_isspace (rev (dropWhile py_isspace s)))"

definition py_lower_char :: "char \<Rightarrow> char" where
  "py_lower_char c = (let n = (of_char c :: nat) in
     if (65 \<le> n \<and> n \<le> 90) \<or> (192 \<le> n \<and> n \<le> 222 \<and> n \<noteq> 215)
     then char_of (n + 32) else c)"

definition py_lower :: "string \<Rightarrow> string" where
  "py_lower s = map py_lower_char s"

text \<open>\<open>0 <= temp <= 2\<close> on a float: false for NaN and the infinities.\<close>

fun temp_in_range :: "pyfloat \<Rightarrow> bool" where
  "temp_in_range (Finite r) = (0 \<le> r \<and> r \<le> 2)"
| "temp_in_range _ = False"

text \<open>\<open>', '.join(xs)\<close>: TypeError when an item is not a string.\<close>

fun py_join :: "pyval list \<Rightarrow> exn + string" where
  "py_join [] = Inr []"
| "py_join [PStr s] = Inr s"
| "py_join (PStr s # xs) =
     (case py_join xs of Inl e \<Rightarrow> Inl e | Inr r \<Rightarrow> Inr (s @ '', '' @ r))"
| "py_join (_ # xs) = Inl TypeError"

section \<open>ModeConfiguration\<close>

record ModeConfiguration =
  model :: pyval
  max_tokens :: pyval
  temperature :: pyval
  system_prompt :: pyval

definition getitem :: "ModeConfiguration \<Rightarrow> string \<Rightarrow> exn + pyval" where
  "getitem c key =
     (if key = ''model'' then Inr (model c)
      else if key = ''max_tokens'' then Inr (max_tokens c)
      else if key = ''temperature'' then Inr (temperature c)
      else if key = ''system_prompt'' then Inr (system_prompt c)
      else Inl (KeyError key))"

definition setitem :: "ModeConfiguration \<Rightarrow> string \<Rightarrow> pyval \<Rightarrow> exn + ModeConfiguration" where
  "setitem c key v =
     (if key = ''model'' then Inr (c\<lparr>model := v\<rparr>)
      else if key = ''max_tokens'' then Inr (c\<lparr>max_tokens := v\<rparr>)
      else if key = ''temperature'' then Inr (c\<lparr>temperature := v\<rparr>)
      else if key = ''system_prompt'' then Inr (c\<lparr>system_prompt := v\<rparr>)
      else Inl (KeyError key))"

definition to_dict :: "ModeConfiguration \<Rightarrow> pyval" where
  "to_dict c = PDict [(''model'', model c), (''max_tokens'', max_tokens c),
     (''temperature'', temperature c), (''system_prompt'', system_prompt c)]"

definition from_dict :: "pyval \<Rightarrow> exn + ModeConfiguration" where
  "from_dict data =
     (case py_getitem data ''model'' of
        Inl e \<Rightarrow> Inl e
      | Inr m \<Rightarrow>
         (case py_getitem data ''max_tokens'' of
            Inl e \<Rightarrow> Inl e
          | Inr mt \<Rightarrow>
             (case py_getitem data ''temperature'' of
                Inl e \<Rightarrow> Inl e
              | Inr t \<Rightarrow>
                 (case py_get data ''system_prompt'' PNone of
                    Inl e \<Rightarrow> Inl e
                  | Inr sp \<Rightarrow>
                      Inr \<lparr>model = m, max_tokens = mt, temperature = t,
                           system_prompt = sp\<rparr>))))"

section \<open>The session\<close>

text \<open>A \<open>datetime\<close> is represented by the two renderings the program takes of it.\<close>

record datetime =
  isoformat :: string
  strftime_Ymd_HMS :: string

record session_stats =
  total_messages :: int
  total_tokens_used :: int
  session_start :: datetime

record ChatBot =
  available_models :: "pyval list"
  settings :: ModeConfiguration
  conversation_history :: "pyval list"
  stats :: session_stats

definition message :: "string \<Rightarrow> pyval \<Rightarrow> pyval" where
  "message role content = PDict [(''role'', PStr role), (''content'', content)]"

text \<open>What the program prints, one constructor for each message of the source.\<close>

datatype printed =
    Saved string
  | Save_failed exn
  | Warn_overwrite_history
  | Ask_overwrite_history
  | Load_cancelled
  | Warn_overwrite_settings
  | Ask_overwrite_settings
  | Settings_updated pyval
  | Settings_kept
  | Loaded string
  | Loaded_count nat
  | Load_failed exn
  | Already_using_model string
  | Switching_model
  | Switched_model string
  | Unsupported_model string
  | Available_models string
  | Tokens_set int
  | Err_tokens_positive
  | Err_tokens_invalid
  | Temperature_set pyfloat
  | Err_temperature_range
  | Err_temperature_invalid
  | Warn_prompt_truncated
  | Prompt_updated
  | Err_prompt_empty
  | Unknown_setting string
  | History_cleared
  | Help_text
  | Stats_text session_stats int
  | Settings_text ModeConfiguration
  | Models_header
  | Model_line pyval bool
  | Need_model
  | Need_temperature
  | Need_tokens
  | Need_prompt
  | Need_filename
  | Goodbye
  | Unknown_command string

subsection \<open>clear_history\<close>

definition clear_history :: "ChatBot \<Rightarrow> ChatBot \<times> printed list" where
  "clear_history s =
     (s\<lparr>conversation_history :=
          [message ''developer'' (py_or (system_prompt (settings s)) (PStr []))]\<rparr>,
      [History_cleared])"

subsection \<open>adjust_settings\<close>

text \<open>
  \<open>float(value)\<close> and \<open>int(value)\<close> on a string belong to Python, not to the program:
  they are the parameters \<open>py_float\<close> and \<open>py_int\<close>, \<open>None\<close> standing for ValueError.
  The result is the session after the call, what was printed, and the exception that
  left the call, if any (the assignments made before it stay made). The keys passed to
  the configuration's item access are literals, so each access is the field itself.
\<close>

definition set_history_content :: "pyval list \<Rightarrow> pyval \<Rightarrow> exn + pyval list" where
  "set_history_content h v =
     (case h of
        [] \<Rightarrow> Inl IndexError
      | PDict kvs # rest \<Rightarrow> Inr (PDict (dict_set ''content'' v kvs) # rest)
      | _ # rest \<Rightarrow> Inl TypeError)"

definition adjust_settings ::
  "(string \<Rightarrow> pyfloat option) \<Rightarrow> (string \<Rightarrow> int option) \<Rightarrow>
   ChatBot \<Rightarrow> string \<Rightarrow> string \<Rightarrow> ChatBot \<times> printed list \<times> exn option" where
  "adjust_settings py_float py_int s setting v =
     (if setting = ''model'' then
        (if PStr v \<in> set (available_models s) then
           (s\<lparr>settings := (settings s)\<lparr>model := PStr v\<rparr>\<rparr>,
            [if PStr v = model (settings s) then Already_using_model v else Switching_model,
             Switched_model v], None)
         else
           (case py_join (available_models s) of
              Inl e \<Rightarrow> (s, [Unsupported_model v], Some e)
            | Inr names \<Rightarrow> (s, [Unsupported_model v, Available_models names], None)))
      else if setting = ''max_tokens'' then
        (case py_int v of
           None \<Rightarrow> (s, [Err_tokens_invalid], None)
         | Some tokens \<Rightarrow>
             if tokens > 0 then
               (s\<lparr>settings := (settings s)\<lparr>max_tokens := PInt tokens\<rparr>\<rparr>,
                [Tokens_set tokens], None)
             else (s, [Err_tokens_positive], None))
      else if setting = ''temperature'' then
        (case py_float v of
           None \<Rightarrow> (s, [Err_temperature_invalid], None)
         | Some temp \<Rightarrow>
             if temp_in_range temp then
               (s\<lparr>settings := (settings s)\<lparr>temperature := PFloat temp\<rparr>\<rparr>,
                [Temperature_set temp], None)
             else (s, [Err_temperature_range], None))
      else if setting = ''system_prompt'' then
        (if v \<noteq> [] then
           (let warn = (if length v > 1000 then [Warn_prompt_truncated] else []);
                v' = (if length v > 1000 then take 1000 v else v);
                s1 = s\<lparr>settings := (settings s)\<lparr>system_prompt := PStr v'\<rparr>\<rparr>
            in case set_history_content (conversation_history s1) (PStr v') of
                 Inl e \<Rightarrow> (s1, warn, Some e)
               | Inr h \<Rightarrow> (s1\<lparr>conversation_history := h\<rparr>, warn @ [Prompt_updated], None))
         else (s, [Err_prompt_empty], None))
      else (s, [Unknown_setting setting], None))"

subsection \<open>chat\<close>

text \<open>The remote call is the parameter \<open>create\<close>: it gets the request and either
  raises or returns the text and, possibly, the token usage.\<close>

record request =
  req_model :: pyval
  req_input :: "pyval list"
  req_temperature :: pyval
  req_max_output_tokens :: pyval

record response =
  output_text :: string
  usage :: "int option"

text \<open>The value \<open>chat\<close> returns: the assistant's text, or the error string built
  from the exception.\<close>

datatype chat_result = Reply string | Error_string exn

definition chat ::
  "(request \<Rightarrow> exn + response) \<Rightarrow> ChatBot \<Rightarrow> string \<Rightarrow> ChatBot \<times> chat_result" where
  "chat create s msg =
     (let s1 = s\<lparr>conversation_history :=
                  conversation_history s @ [message ''user'' (PStr msg)]\<rparr>
      in case create \<lparr>req_model = model (settings s1),
                        req_input = conversation_history s1,
                        req_temperature = temperature (settings s1),
                        req_max_output_tokens = max_tokens (settings s1)\<rparr> of
           Inl e \<Rightarrow> (s1, Error_string e)
         | Inr r \<Rightarrow>
             (let s2 = s1\<lparr>conversation_history :=
                          conversation_history s1 @ [message ''assistant'' (PStr (output_text r))]\<rparr>;
                  s3 = s2\<lparr>stats := (stats s2)\<lparr>total_messages := total_messages (stats s2) + 1\<rparr>\<rparr>;
                  s4 = (case usage r of
                          None \<Rightarrow> s3
                        | Some t \<Rightarrow>
                            s3\<lparr>stats := (stats s3)\<lparr>total_tokens_used :=
                                         total_tokens_used (stats s3) + t\<rparr>\<rparr>)
              in (s4, Reply (output_text r))))"

subsection \<open>save_conversation and load_conversation\<close>

text \<open>
  A file is modelled by what opening it and \<open>json.load\<close> make of it: it is missing,
  it cannot be opened, its text is not JSON, or its text is the JSON of a value.
  \<open>json.dump\<close> writes a text that \<open>json.load\<close> reads back as the value dumped.
\<close>

datatype fnode = Missing | Denied | Garbage | Json pyval

type_synonym files = "string \<Rightarrow> fnode"

definition conversation_data :: "ChatBot \<Rightarrow> datetime \<Rightarrow> pyval" where
  "conversation_data s now =
     PDict [(''timestamp'', PStr (isoformat now)),
            (''settings'', to_dict (settings s)),
            (''conversation'', PList (drop 1 (conversation_history s))),
            (''stats'', PDict [
               (''total_messages'', PInt (total_messages (stats s))),
               (''total_tokens_used'', PInt (total_tokens_used (stats s))),
               (''session_start'', PStr (isoformat (session_start (stats s))))])]"

text \<open>\<open>now_name\<close> and \<open>now\<close> are the two readings of the clock.\<close>

definition save_conversation ::
  "ChatBot \<Rightarrow> files \<Rightarrow> datetime \<Rightarrow> datetime \<Rightarrow> string option \<Rightarrow> files \<times> printed list" where
  "save_conversation s fs now_name now filename =
     (let fname = (case filename of
                     None \<Rightarrow> ''conversation_'' @ strftime_Ymd_HMS now_name @ ''.json''
                   | Some f \<Rightarrow> f);
          data = conversation_data s now
      in case fs fname of
           Denied \<Rightarrow> (fs, [Save_failed PermissionError])
         | _ \<Rightarrow> (fs(fname := Json data), [Saved fname]))"

text \<open>
  \<open>input()\<close> takes the next line of the operator's input \<open>inp\<close>, and raises
  EOFError when there is none. The result of the load is the session, what was printed
  and the input that is left. \<open>load_rest\<close> is the source from
  \<open>self.conversation_history.extend\<close> on.
\<close>

definition confirmed :: "string \<Rightarrow> bool" where
  "confirmed line = (py_lower (py_strip line) = ''yes'')"

definition load_rest ::
  "ChatBot \<Rightarrow> pyval \<Rightarrow> ModeConfiguration \<Rightarrow> string list \<Rightarrow> printed list \<Rightarrow> string \<Rightarrow>
   ChatBot \<times> printed list \<times> string list" where
  "load_rest s1 data setting inp out filename =
     (case py_getitem data ''conversation'' of
        Inl e \<Rightarrow> (s1, out @ [Load_failed e], inp)
      | Inr conv \<Rightarrow>
         (case py_iter conv of
            None \<Rightarrow> (s1, out @ [Load_failed TypeError], inp)
          | Some items \<Rightarrow>
             (let s2 = s1\<lparr>conversation_history := conversation_history s1 @ items\<rparr>;
                  out2 = out @ [Warn_overwrite_settings, Ask_overwrite_settings]
              in case inp of
                   [] \<Rightarrow> (s2, out2 @ [Load_failed EOFError], [])
                 | line # rest \<Rightarrow>
                     if confirmed line then
                       (s2\<lparr>settings := setting\<rparr>,
                        out2 @ [Settings_updated (to_dict setting), Loaded filename,
                                Loaded_count (length items)], rest)
                     else
                       (s2, out2 @ [Settings_kept, Loaded filename,
                                    Loaded_count (length items)], rest))))"

definition load_conversation ::
  "ChatBot \<Rightarrow> files \<Rightarrow> string list \<Rightarrow> string \<Rightarrow> ChatBot \<times> printed list \<times> string list" where
  "load_conversation s fs inp filename =
     (case fs filename of
        Missing \<Rightarrow> (s, [Load_failed FileNotFoundError], inp)
      | Denied \<Rightarrow> (s, [Load_failed PermissionError], inp)
      | Garbage \<Rightarrow> (s, [Load_failed JSONDecodeError], inp)
      | Json data \<Rightarrow>
         (case py_getitem data ''settings'' of
            Inl e \<Rightarrow> (s, [Load_failed e], inp)
          | Inr sd \<Rightarrow>
             (case from_dict sd of
                Inl e \<Rightarrow> (s, [Load_failed e], inp)
              | Inr setting \<Rightarrow>
                 (let s1 = s\<lparr>conversation_history :=
                              [message ''system'' (py_or (system_prompt setting) (PStr []))]\<rparr>
                  in if length (conversation_history s1) > 1 then
                       (case inp of
                          [] \<Rightarrow>
                            (s1, [Warn_overwrite_history, Ask_overwrite_history,
                                  Load_failed EOFError], [])
                        | line # rest \<Rightarrow>
                            if \<not> confirmed line then
                              (s1, [Warn_overwrite_history, Ask_overwrite_history,
                                    Load_cancelled], rest)
                            else load_rest s1 data setting rest
                                   [Warn_overwrite_history, Ask_overwrite_history] filename)
                     else load_rest s1 data setting inp [] filename))))"

subsection \<open>handle_command\<close>

text \<open>
  \<open>str.split(maxsplit=1)\<close>: the first word and, when there is one, the rest of the
  line from its first character that is not white space.
\<close>

definition py_split1 :: "string \<Rightarrow> string list" where
  "py_split1 s =
     (let t = dropWhile py_isspace s;
          w = takeWhile (\<lambda>c. \<not> py_isspace c) t;
          r = dropWhile py_isspace (dropWhile (\<lambda>c. \<not> py_isspace c) t)
      in if w = [] then [] else if r = [] then [w] else [w, r])"

text \<open>How a call ends: it returns a value, an exception leaves it, or the process
  exits.\<close>

datatype 'a outcome = Returned 'a | Raised exn | Exited

definition show_stats :: "ChatBot \<Rightarrow> printed list" where
  "show_stats s = [Stats_text (stats s) (int (length (conversation_history s)) - 1)]"

definition show_settings :: "ChatBot \<Rightarrow> printed list" where
  "show_settings s = [Settings_text (settings s)]"

text \<open>
  The result of a command is the session, the files, what was printed, the operator's
  input that is left, and how the call ended. An exception that leaves
  \<open>adjust_settings\<close> leaves \<open>handle_command\<close> too.
\<close>

definition adjust_command ::
  "(string \<Rightarrow> pyfloat option) \<Rightarrow> (string \<Rightarrow> int option) \<Rightarrow> ChatBot \<Rightarrow> files \<Rightarrow>
   string list \<Rightarrow> string \<Rightarrow> string \<Rightarrow> printed \<Rightarrow>
   ChatBot \<times> files \<times> printed list \<times> string list \<times> bool outcome" where
  "adjust_command py_float py_int s fs inp setting args missing =
     (if args \<noteq> [] then
        (case adjust_settings py_float py_int s setting args of
           (s', out, None) \<Rightarrow> (s', fs, out, inp, Returned True)
         | (s', out, Some e) \<Rightarrow> (s', fs, out, inp, Raised e))
      else (s, fs, [missing], inp, Returned True))"

definition handle_command ::
  "(string \<Rightarrow> pyfloat option) \<Rightarrow> (string \<Rightarrow> int option) \<Rightarrow> ChatBot \<Rightarrow> files \<Rightarrow>
   string list \<Rightarrow> datetime \<Rightarrow> datetime \<Rightarrow> string \<Rightarrow>
   ChatBot \<times> files \<times> printed list \<times> string list \<times> bool outcome" where
  "handle_command py_float py_int s fs inp now_name now user_input =
     (case py_split1 (py_strip user_input) of
        [] \<Rightarrow> (s, fs, [], inp, Raised IndexError)
      | tok # others \<Rightarrow>
         (let command = py_lower tok;
              args = (case others of [] \<Rightarrow> [] | a # _ \<Rightarrow> py_strip a)
          in if take 1 command \<noteq> ''/'' then (s, fs, [], inp, Returned False)
             else if command = ''/help'' then (s, fs, [Help_text], inp, Returned True)
             else if command = ''/clear'' then
               (case clear_history s of (s', out) \<Rightarrow> (s', fs, out, inp, Returned True))
             else if command = ''/stats'' then (s, fs, show_stats s, inp, Returned True)
             else if command = ''/settings'' then (s, fs, show_settings s, inp, Returned True)
             else if command = ''/models'' then
               (s, fs,
                Models_header #
                  map (\<lambda>m. Model_line m (m = model (settings s))) (available_models s),
                inp, Returned True)
             else if command = ''/model'' then
               adjust_command py_float py_int s fs inp ''model'' args Need_model
             else if command = ''/temp'' then
               adjust_command py_float py_int s fs inp ''temperature'' args Need_temperature
             else if command = ''/tokens'' then
               adjust_command py_float py_int s fs inp ''max_tokens'' args Need_tokens
             else if command = ''/prompt'' then
               adjust_command py_float py_int s fs inp ''system_prompt'' args Need_prompt
             else if command = ''/save'' then
               (case save_conversation s fs now_name now
                       (if args \<noteq> [] then Some args else None) of
                  (fs', out) \<Rightarrow> (s, fs', out, inp, Returned True))
             else if command = ''/load'' then
               (if args \<noteq> [] then
                  (case load_conversation s fs inp args of
                     (s', out, inp') \<Rightarrow> (s', fs, out, inp', Returned True))
                else (s, fs, [Need_filename], inp, Returned True))
             else if command = ''/quit'' \<or> command = ''/exit'' then
               (s, fs, [Goodbye], inp, Exited)
             else (s, fs, [Unknown_command command], inp, Returned True)))"

subsection \<open>Startup\<close>

text \<open>
  \<open>env\<close> is the process environment after \<open>load_dotenv\<close>. The default system
  prompt of the source is a text outside the characters modelled here, so it is the
  parameter \<open>default_prompt\<close>. \<open>None\<close> is the process exit (\<open>sys.exit(1)\<close>, or the
  ValueError of \<open>int\<close> or \<open>float\<close> that reaches \<open>main\<close>). The messages of the
  startup are left out.
\<close>

definition get_environment_variable ::
  "(string \<Rightarrow> string option) \<Rightarrow> string \<Rightarrow> string option \<Rightarrow> string option" where
  "get_environment_variable env var_name dflt =
     (case env var_name of
        None \<Rightarrow> (case dflt of Some d \<Rightarrow> Some d | None \<Rightarrow> None)
      | Some v \<Rightarrow> Some v)"

definition load_models_from_json :: "files \<Rightarrow> pyval list" where
  "load_models_from_json fs =
     (case fs ''models.json'' of
        Json (PList models) \<Rightarrow> models
      | _ \<Rightarrow> [PStr ''gpt-4'', PStr ''gpt-4.1'', PStr ''gpt-4o''])"

text \<open>\<open>str.isdigit()\<close> on the characters below 256: the ten digits and the
  superscripts 1, 2 and 3.\<close>

definition py_isdigit :: "string \<Rightarrow> bool" where
  "py_isdigit s = (s \<noteq> [] \<and>
     list_all (\<lambda>c. let n = (of_char c :: nat) in
                 (48 \<le> n \<and> n \<le> 57) \<or> n = 178 \<or> n = 179 \<or> n = 185) s)"

definition load_model_configuration ::
  "(string \<Rightarrow> pyfloat option) \<Rightarrow> (string \<Rightarrow> int option) \<Rightarrow>
   (string \<Rightarrow> string option) \<Rightarrow> pyval list \<Rightarrow> string \<Rightarrow> ModeConfiguration option" where
  "load_model_configuration py_float py_int env models default_prompt =
     (case get_environment_variable env ''OPENAI_MODEL'' (Some ''gpt-4o'') of
        None \<Rightarrow> None
      | Some m \<Rightarrow>
         if PStr m \<notin> set models then None
         else
          (case get_environment_variable env ''OPENAI_MAX_TOKENS'' (Some ''1024'') of
             None \<Rightarrow> None
           | Some mt \<Rightarrow>
              if mt \<noteq> [] \<and> (\<not> py_isdigit mt
                           \<or> (case py_int mt of None \<Rightarrow> True | Some n \<Rightarrow> n \<le> 0))
              then None
              else
               (case get_environment_variable env ''OPENAI_TEMPERATURE'' (Some ''0.7'') of
                  None \<Rightarrow> None
                | Some t \<Rightarrow>
                   if t \<noteq> [] \<and> (\<not> py_isdigit (remove1 CHR ''.'' t)
                                \<or> (case py_float t of
                                      None \<Rightarrow> True
                                    | Some x \<Rightarrow> \<not> temp_in_range x))
                   then None
                   else
                    (case get_environment_variable env ''OPENAI_SYSTEM_PROMPT''
                            (Some default_prompt) of
                       None \<Rightarrow> None
                     | Some p \<Rightarrow>
                        (case (if mt \<noteq> [] then py_int mt else Some 1024) of
                           None \<Rightarrow> None
                         | Some n \<Rightarrow>
                            (case (if t \<noteq> [] then py_float t else Some (Finite (7 / 10))) of
                               None \<Rightarrow> None
                             | Some x \<Rightarrow>
                                Some \<lparr>model = PStr m,
                                      max_tokens = PInt n,
                                      temperature = PFloat x,
                                      system_prompt =
                                        (if p \<noteq> [] \<and> length p > 1000
                                         then PStr (take 1000 p) else PStr p)\<rparr>))))))"

definition ChatBot_init ::
  "(string \<Rightarrow> pyfloat option) \<Rightarrow> (string \<Rightarrow> int option) \<Rightarrow>
   (string \<Rightarrow> string option) \<Rightarrow> files \<Rightarrow> datetime \<Rightarrow> string \<Rightarrow> ChatBot option" where
  "ChatBot_init py_float py_int env fs now default_prompt =
     (case get_environment_variable env ''OPENAI_API_KEY'' None of
        None \<Rightarrow> None
      | Some api_key \<Rightarrow>
         if api_key = [] then None
         else if take 3 api_key \<noteq> ''sk-'' \<or> length api_key < 20 then None
         else
          (let models = load_models_from_json fs
           in case load_model_configuration py_float py_int env models default_prompt of
                None \<Rightarrow> None
              | Some cfg \<Rightarrow>
                  Some \<lparr>available_models = models,
                        settings = cfg,
                        conversation_history =
                          [message ''developer'' (py_or (system_prompt cfg) (PStr []))],
                        stats = \<lparr>total_messages = 0, total_tokens_used = 0,
                                  session_start = now\<rparr>\<rparr>))"

section \<open>Reachable sessions and validity\<close>

text \<open>
  The sessions the program can reach: the one built at startup, and from a reached
  session the one left by a call of \<open>clear_history\<close>, \<open>adjust_settings\<close>,
  \<open>load_conversation\<close> or \<open>chat\<close>, whatever the files, the operator's input
  and the remote service are. \<open>save_conversation\<close> does not change the session, and
  \<open>handle_command\<close> changes it through these calls only
  (\<open>handle_command_reachable\<close>).
\<close>

inductive reachable ::
  "(string \<Rightarrow> pyfloat option) \<Rightarrow> (string \<Rightarrow> int option) \<Rightarrow> ChatBot \<Rightarrow> bool"
  for py_float :: "string \<Rightarrow> pyfloat option" and py_int :: "string \<Rightarrow> int option" where
  started: "ChatBot_init py_float py_int env fs now default_prompt = Some s
     \<Longrightarrow> reachable py_float py_int s"
| cleared: "reachable py_float py_int s
     \<Longrightarrow> reachable py_float py_int (fst (clear_history s))"
| adjusted: "reachable py_float py_int s
     \<Longrightarrow> reachable py_float py_int (fst (adjust_settings py_float py_int s setting v))"
| loaded: "reachable py_float py_int s
     \<Longrightarrow> reachable py_float py_int (fst (load_conversation s fs inp filename))"
| chatted: "reachable py_float py_int s
     \<Longrightarrow> reachable py_float py_int (fst (chat create s msg))"

text \<open>The four rules of the configuration: the model is in the list of available
  models, the token limit is a positive integer, the temperature is a number from 0 to
  2, the system prompt is absent or a string of at most 1000 characters.\<close>

definition settings_valid :: "pyval list \<Rightarrow> ModeConfiguration \<Rightarrow> bool" where
  "settings_valid models c =
     (model c \<in> set models
      \<and> (case max_tokens c of PInt n \<Rightarrow> 0 < n | _ \<Rightarrow> False)
      \<and> (case temperature c of
            PFloat t \<Rightarrow> temp_in_range t
          | PInt n \<Rightarrow> 0 \<le> n \<and> n \<le> 2
          | _ \<Rightarrow> False)
      \<and> (case system_prompt c of
            PNone \<Rightarrow> True
          | PStr p \<Rightarrow> length p \<le> 1000
          | _ \<Rightarrow> False))"

text \<open>The role of the first entry of the history.\<close>

definition first_role :: "ChatBot \<Rightarrow> exn + pyval" where
  "first_role s =
     (case conversation_history s of
        [] \<Rightarrow> Inl IndexError
      | m # _ \<Rightarrow> py_getitem m ''role'')"

definition first_content :: "ChatBot \<Rightarrow> exn + pyval" where
  "first_content s =
     (case conversation_history s of
        [] \<Rightarrow> Inl IndexError
      | m # _ \<Rightarrow> py_getitem m ''content'')"

section \<open>Example sessions\<close>

definition nine_oclock :: datetime where
  "nine_oclock = \<lparr>isoformat = ''2025-01-01T09:00:00'', strftime_Ymd_HMS = ''20250101_090000''\<rparr>"

definition ten_oclock :: datetime where
  "ten_oclock = \<lparr>isoformat = ''2025-01-01T10:00:00'', strftime_Ymd_HMS = ''20250101_100000''\<rparr>"

text \<open>A stand-in for \<open>float\<close> and \<open>int\<close> on the few strings the examples use.\<close>

definition float_of :: "string \<Rightarrow> pyfloat option" where
  "float_of v =
     (if v = ''0.5'' then Some (Finite (1 / 2))
      else if v = ''3'' then Some (Finite 3)
      else if v = ''nan'' then Some NaN
      else None)"

definition int_of :: "string \<Rightarrow> int option" where
  "int_of v =
     (if v = ''500'' then Some 500
      else if v = ''1024'' then Some 1024
      else if v = ''-5'' then Some (- 5)
      else None)"

definition example_env :: "string \<Rightarrow> string option" where
  "example_env var =
     (if var = ''OPENAI_API_KEY'' then Some ''sk-0123456789abcdefghij''
      else if var = ''OPENAI_TEMPERATURE'' then Some ''0.5''
      else if var = ''OPENAI_SYSTEM_PROMPT'' then Some ''Be brief.''
      else None)"

definition no_files :: files where
  "no_files = (\<lambda>_. Missing)"

definition default_models :: "pyval list" where
  "default_models = [PStr ''gpt-4'', PStr ''gpt-4.1'', PStr ''gpt-4o'']"

definition fresh_bot :: ChatBot where
  "fresh_bot =
     \<lparr>available_models = default_models,
      settings = \<lparr>model = PStr ''gpt-4o'', max_tokens = PInt 1024,
                  temperature = PFloat (Finite (1 / 2)), system_prompt = PStr ''Be brief.''\<rparr>,
      conversation_history = [message ''developer'' (PStr ''Be brief.'')],
      stats = \<lparr>total_messages = 0, total_tokens_used = 0, session_start = nine_oclock\<rparr>\<rparr>"

definition answering :: "request \<Rightarrow> exn + response" where
  "answering r = Inr \<lparr>output_text = ''Hello.'', usage = Some 12\<rparr>"

definition failing :: "request \<Rightarrow> exn + response" where
  "failing r = Inl (APIError ''timeout'')"

definition talked_bot :: ChatBot where
  "talked_bot =
     \<lparr>available_models = default_models,
      settings = \<lparr>model = PStr ''gpt-4o'', max_tokens = PInt 1024,
                  temperature = PFloat (Finite (1 / 2)), system_prompt = PStr ''Be brief.''\<rparr>,
      conversation_history =
        [message ''developer'' (PStr ''Be brief.''),
         message ''user'' (PStr ''Hi''),
         message ''assistant'' (PStr ''Hello.'')],
      stats = \<lparr>total_messages = 1, total_tokens_used = 12, session_start = nine_oclock\<rparr>\<rparr>"


text \<open>A directory holding one JSON file.\<close>

definition one_file :: "string \<Rightarrow> pyval \<Rightarrow> files" where
  "one_file name doc = (\<lambda>f. if f = name then Json doc else Missing)"

text \<open>A saved conversation cut short: the settings are there, the conversation is not.\<close>

definition truncated_doc :: pyval where
  "truncated_doc =
     PDict [(''timestamp'', PStr ''2025-01-01T08:00:00''),
            (''settings'', PDict [(''model'', PStr ''gpt-4o''), (''max_tokens'', PInt 1024),
                                  (''temperature'', PFloat (Finite (1 / 2))),
                                  (''system_prompt'', PStr ''Be kind.'')])]"

text \<open>A file whose settings break the rules of the configuration.\<close>

definition invalid_doc :: pyval where
  "invalid_doc =
     PDict [(''settings'', PDict [(''model'', PStr ''no-such-model''),
                                  (''max_tokens'', PInt (- 5)),
                                  (''temperature'', PFloat (Finite 99)),
                                  (''system_prompt'', PStr (replicate 1500 CHR ''a''))]),
            (''conversation'', PList [])]"


section \<open>Basic facts\<close>

lemma confirmed_yes: "confirmed ''yes''"
  by code_simp

lemma not_confirmed_empty: "\<not> confirmed ''''"
  by code_simp

lemma py_or_str: "py_or (PStr p) (PStr []) = PStr p"
  by (simp add: py_or_def)

lemma py_or_none: "py_or PNone (PStr []) = PStr []"
  by (simp add: py_or_def)

lemma map_of_dict_set: "map_of (dict_set k v kvs) k = Some v"
  by (induction kvs) auto

lemma map_of_dict_set_other: "k' \<noteq> k \<Longrightarrow> map_of (dict_set k v kvs) k' = map_of kvs k'"
  by (induction kvs) auto

lemma from_dict_to_dict: "from_dict (to_dict c) = Inr c"
  by (simp add: from_dict_def to_dict_def)

lemma temp_in_range_iff: "temp_in_range t \<longleftrightarrow> (\<exists>r. t = Finite r \<and> 0 \<le> r \<and> r \<le> 2)"
  by (cases t) auto

lemma set_history_content_dict:
  "set_history_content (PDict kvs # rest) v = Inr (PDict (dict_set ''content'' v kvs) # rest)"
  by (simp add: set_history_content_def)

text \<open>The example sessions are sessions of the program: the first is the startup in
  the example environment, the second is the first after one exchange.\<close>

lemma fresh_bot_started:
  "ChatBot_init float_of int_of example_env no_files nine_oclock dp = Some fresh_bot"
  by (simp add: ChatBot_init_def get_environment_variable_def example_env_def
      load_models_from_json_def no_files_def load_model_configuration_def float_of_def
      int_of_def py_isdigit_def fresh_bot_def default_models_def py_or_def)

lemma talked_bot_chat: "chat answering fresh_bot ''Hi'' = (talked_bot, Reply ''Hello.'')"
  by (simp add: chat_def answering_def fresh_bot_def talked_bot_def)

lemma reachable_fresh_bot: "reachable float_of int_of fresh_bot"
  using fresh_bot_started by (rule reachable.started)

lemma reachable_talked_bot: "reachable float_of int_of talked_bot"
  using reachable.chatted [OF reachable_fresh_bot, of answering "''Hi''"]
  by (simp add: talked_bot_chat)

section \<open>The first entry of the history\<close>

text \<open>Every call keeps a message at the head of the history, so \<open>history[0]\<close> is
  there and is a dict in every reachable session.\<close>

lemma load_rest_head:
  "\<exists>rest. conversation_history (fst (load_rest s1 data setting inp out f)) =
      conversation_history s1 @ rest"
  by (auto simp: load_rest_def Let_def split: sum.splits option.splits list.splits)

lemma load_conversation_decoded:
  assumes "fs f = Json data" and "py_getitem data ''settings'' = Inr sd"
    and "from_dict sd = Inr setting"
  shows "load_conversation s fs inp f =
           load_rest (s\<lparr>conversation_history :=
                          [message ''system'' (py_or (system_prompt setting) (PStr []))]\<rparr>)
             data setting inp [] f"
  using assms by (simp add: load_conversation_def)

lemma load_conversation_undecoded:
  assumes "\<not> (\<exists>data sd setting. fs f = Json data \<and> py_getitem data ''settings'' = Inr sd
                  \<and> from_dict sd = Inr setting)"
  shows "\<exists>e. load_conversation s fs inp f = (s, [Load_failed e], inp)"
  using assms
  by (auto simp: load_conversation_def split: fnode.splits sum.splits)

lemma load_conversation_cases:
  "fst (load_conversation s fs inp f) = s
   \<or> (\<exists>c rest. conversation_history (fst (load_conversation s fs inp f)) =
         message ''system'' c # rest)"
proof (cases "\<exists>data sd setting. fs f = Json data \<and> py_getitem data ''settings'' = Inr sd
                  \<and> from_dict sd = Inr setting")
  case True
  then obtain data sd setting where d: "fs f = Json data"
      "py_getitem data ''settings'' = Inr sd" "from_dict sd = Inr setting"
    by blast
  show ?thesis
    using d load_rest_head [of "s\<lparr>conversation_history :=
                          [message ''system'' (py_or (system_prompt setting) (PStr []))]\<rparr>"
        data setting inp "[]" f]
    by (auto simp: load_conversation_decoded [of fs f data sd setting])
next
  case False
  then show ?thesis using load_conversation_undecoded [of fs f s inp] by auto
qed

lemma adjust_settings_history_head:
  assumes "conversation_history s = PDict kvs # rest"
  shows "\<exists>kvs'. conversation_history (fst (adjust_settings pf pn s k v)) = PDict kvs' # rest"
  using assms
  by (auto simp: adjust_settings_def Let_def set_history_content_dict
      split: sum.splits option.splits)

lemma chat_history_head:
  assumes "conversation_history s = PDict kvs # rest"
  shows "\<exists>rest'. conversation_history (fst (chat create s m)) = PDict kvs # rest'"
  using assms
  by (auto simp: chat_def Let_def split: sum.splits option.splits)

lemma init_history_head:
  assumes "ChatBot_init pf pn env fs now dp = Some s"
  shows "\<exists>c. conversation_history s = [message ''developer'' c]"
  using assms
  by (auto simp: ChatBot_init_def Let_def split: option.splits if_splits)

lemma reachable_history_head:
  assumes "reachable pf pn s"
  shows "\<exists>kvs rest. conversation_history s = PDict kvs # rest"
  using assms
proof (induction rule: reachable.induct)
  case (started env fs now default_prompt s)
  then show ?case using init_history_head [of pf pn env fs now default_prompt s]
    by (auto simp: message_def)
next
  case (cleared s)
  then show ?case by (simp add: clear_history_def message_def)
next
  case (adjusted s setting v)
  then show ?case using adjust_settings_history_head by blast
next
  case (loaded s fs inp filename)
  then show ?case using load_conversation_cases [of s fs inp filename]
    by (auto simp: message_def)
next
  case (chatted s create msg)
  then show ?case using chat_history_head by blast
qed


text \<open>The item access of the configuration at the literal keys the program uses is
  the field itself.\<close>

lemma getitem_literals:
  "getitem c ''model'' = Inr (model c)"
  "getitem c ''max_tokens'' = Inr (max_tokens c)"
  "getitem c ''temperature'' = Inr (temperature c)"
  "getitem c ''system_prompt'' = Inr (system_prompt c)"
  by (simp_all add: getitem_def)

lemma setitem_literals:
  "setitem c ''model'' v = Inr (c\<lparr>model := v\<rparr>)"
  "setitem c ''max_tokens'' v = Inr (c\<lparr>max_tokens := v\<rparr>)"
  "setitem c ''temperature'' v = Inr (c\<lparr>temperature := v\<rparr>)"
  "setitem c ''system_prompt'' v = Inr (c\<lparr>system_prompt := v\<rparr>)"
  by (simp_all add: setitem_def)

section \<open>What each operation does to the first role and to the rules\<close>

text \<open>Startup and \<open>clear_history\<close> write the role \<open>developer\<close>; \<open>adjust_settings\<close>
  and \<open>chat\<close> keep the role they find; a load that gets past the settings writes
  \<open>system\<close>.\<close>

lemma init_first_role:
  assumes "ChatBot_init pf pn env fs now dp = Some s"
  shows "first_role s = Inr (PStr ''developer'')"
  using init_history_head [OF assms] by (auto simp: first_role_def message_def)

lemma clear_first_role: "first_role (fst (clear_history s)) = Inr (PStr ''developer'')"
  by (simp add: clear_history_def first_role_def message_def)

lemma chat_first_role:
  assumes "conversation_history s \<noteq> []"
  shows "first_role (fst (chat create s m)) = first_role s"
  using assms
  by (cases "conversation_history s")
     (auto simp: chat_def first_role_def Let_def split: sum.splits option.splits)

lemma load_first_role:
  assumes "fs f = Json data" and "py_getitem data ''settings'' = Inr sd"
    and "from_dict sd = Inr setting"
  shows "first_role (fst (load_conversation s fs inp f)) = Inr (PStr ''system'')"
proof -
  let ?s1 = "s\<lparr>conversation_history :=
                  [message ''system'' (py_or (system_prompt setting) (PStr []))]\<rparr>"
  obtain rest where "conversation_history (fst (load_rest ?s1 data setting inp [] f)) =
      conversation_history ?s1 @ rest"
    using load_rest_head [of ?s1 data setting inp "[]" f] by blast
  then show ?thesis
    using assms
    by (simp add: load_conversation_decoded [of fs f data sd setting] first_role_def message_def)
qed

lemma clear_history_settings:
  "settings (fst (clear_history s)) = settings s
   \<and> available_models (fst (clear_history s)) = available_models s"
  by (simp add: clear_history_def)

lemma chat_settings:
  "settings (fst (chat create s m)) = settings s
   \<and> available_models (fst (chat create s m)) = available_models s"
  by (auto simp: chat_def Let_def split: sum.splits option.splits)

lemma set_history_content_role:
  assumes "set_history_content h v = Inr h'"
  shows "\<exists>kvs rest. h = PDict kvs # rest \<and> h' = PDict (dict_set ''content'' v kvs) # rest"
  using assms
  by (cases h; cases "hd h") (auto simp: set_history_content_def)

lemma adjust_first_role: "first_role (fst (adjust_settings pf pn s k v)) = first_role s"
proof (cases "k = ''system_prompt'' \<and> v \<noteq> []")
  case False
  then show ?thesis
    by (auto simp: adjust_settings_def first_role_def split: sum.splits option.splits)
next
  case True
  let ?v' = "if length v > 1000 then take 1000 v else v"
  let ?s1 = "s\<lparr>settings := (settings s)\<lparr>system_prompt := PStr ?v'\<rparr>\<rparr>"
  show ?thesis
  proof (cases "set_history_content (conversation_history s) (PStr ?v')")
    case (Inl e)
    with True show ?thesis
      by (simp add: adjust_settings_def first_role_def Let_def)
  next
    case (Inr h)
    then obtain kvs rest where h: "conversation_history s = PDict kvs # rest"
        "h = PDict (dict_set ''content'' (PStr ?v') kvs) # rest"
      using set_history_content_role by blast
    have "map_of (dict_set ''content'' (PStr ?v') kvs) ''role'' = map_of kvs ''role''"
      by (rule map_of_dict_set_other) simp
    with True Inr h show ?thesis
      by (simp add: adjust_settings_def first_role_def Let_def)
  qed
qed

text \<open>Startup establishes the four rules of the configuration and
  \<open>adjust_settings\<close> preserves them; \<open>clear_history\<close> and \<open>chat\<close> do not touch
  the configuration.\<close>

lemma load_model_configuration_valid:
  assumes "load_model_configuration pf pn env models dp = Some c"
  shows "settings_valid models c"
proof -
  obtain m where m: "get_environment_variable env ''OPENAI_MODEL'' (Some ''gpt-4o'') = Some m"
    using assms by (auto simp: load_model_configuration_def split: option.splits)
  obtain mt where mt: "get_environment_variable env ''OPENAI_MAX_TOKENS'' (Some ''1024'') = Some mt"
    using assms m by (auto simp: load_model_configuration_def split: option.splits if_splits)
  have mem: "PStr m \<in> set models"
    using assms m by (auto simp: load_model_configuration_def split: if_splits)
  have mtok: "\<not> (mt \<noteq> [] \<and> (\<not> py_isdigit mt
                           \<or> (case pn mt of None \<Rightarrow> True | Some n \<Rightarrow> n \<le> 0)))"
    using assms m mt mem by (auto simp: load_model_configuration_def split: if_splits)
  obtain t where t: "get_environment_variable env ''OPENAI_TEMPERATURE'' (Some ''0.7'') = Some t"
    using assms m mt mem mtok
    by (auto simp: load_model_configuration_def split: option.splits if_splits)
  have tok: "\<not> (t \<noteq> [] \<and> (\<not> py_isdigit (remove1 CHR ''.'' t)
                                \<or> (case pf t of
                                      None \<Rightarrow> True
                                    | Some x \<Rightarrow> \<not> temp_in_range x)))"
    using assms m mt mem mtok t
    by (auto simp: load_model_configuration_def split: if_splits)
  obtain p where p: "get_environment_variable env ''OPENAI_SYSTEM_PROMPT'' (Some dp) = Some p"
    using assms m mt mem mtok t tok
    by (auto simp: load_model_configuration_def split: option.splits if_splits)
  obtain n where n: "(if mt \<noteq> [] then pn mt else Some 1024) = Some n"
    using assms m mt mem mtok t tok p
    by (auto simp: load_model_configuration_def split: option.splits if_splits)
  obtain x where x: "(if t \<noteq> [] then pf t else Some (Finite (7 / 10))) = Some x"
    using assms m mt mem mtok t tok p n
    by (auto simp: load_model_configuration_def split: option.splits if_splits)
  have c: "c = \<lparr>model = PStr m, max_tokens = PInt n, temperature = PFloat x,
                system_prompt = (if p \<noteq> [] \<and> length p > 1000
                                 then PStr (take 1000 p) else PStr p)\<rparr>"
    using assms m mt mem mtok t tok p n x
    by (auto simp: load_model_configuration_def split: option.splits if_splits)
  have npos: "0 < n" using n mtok by (auto split: if_splits option.splits)
  have xr: "temp_in_range x" using x tok by (auto split: if_splits option.splits)
  show ?thesis
    unfolding c using mem npos xr by (simp add: settings_valid_def)
qed

lemma init_settings:
  assumes "ChatBot_init pf pn env fs now dp = Some s"
  shows "load_model_configuration pf pn env (available_models s) dp = Some (settings s)"
  using assms
  by (auto simp: ChatBot_init_def Let_def split: option.splits if_splits)

lemma adjust_settings_models:
  "available_models (fst (adjust_settings pf pn s k v)) = available_models s"
  by (auto simp: adjust_settings_def Let_def split: sum.splits option.splits)

lemma adjust_settings_valid:
  assumes "settings_valid (available_models s) (settings s)"
  shows "settings_valid (available_models (fst (adjust_settings pf pn s k v)))
           (settings (fst (adjust_settings pf pn s k v)))"
proof -
  consider (m) "k = ''model''" | (t) "k = ''max_tokens''" | (temp) "k = ''temperature''"
    | (p) "k = ''system_prompt''"
    | (other) "k \<noteq> ''model''" "k \<noteq> ''max_tokens''" "k \<noteq> ''temperature''"
        "k \<noteq> ''system_prompt''"
    by blast
  then show ?thesis
  proof cases
    case m
    with assms show ?thesis
      by (auto simp: adjust_settings_def settings_valid_def split: sum.splits)
  next
    case t
    with assms show ?thesis
      by (auto simp: adjust_settings_def settings_valid_def split: option.splits)
  next
    case temp
    with assms show ?thesis
      by (auto simp: adjust_settings_def settings_valid_def split: option.splits)
  next
    case p
    with assms show ?thesis
      by (auto simp: adjust_settings_def settings_valid_def Let_def split: sum.splits)
  next
    case other
    with assms show ?thesis
      by (simp add: adjust_settings_def)
  qed
qed

lemma init_settings_valid:
  assumes "ChatBot_init pf pn env fs now dp = Some s"
  shows "settings_valid (available_models s) (settings s)"
  using init_settings [OF assms] by (rule load_model_configuration_valid)

section \<open>Commands\<close>

text \<open>A command leaves the session as it was, or as \<open>clear_history\<close>,
  \<open>adjust_settings\<close> or \<open>load_conversation\<close> leave it, so the sessions reached by
  commands are reachable sessions.\<close>

lemma adjust_command_session:
  "fst (adjust_command pf pn s fs inp k args missing) = s
   \<or> fst (adjust_command pf pn s fs inp k args missing) = fst (adjust_settings pf pn s k args)"
  by (auto simp: adjust_command_def split: prod.splits option.splits)

lemma handle_command_session:
  "fst (handle_command pf pn s fs inp now_name now line) = s
   \<or> fst (handle_command pf pn s fs inp now_name now line) = fst (clear_history s)
   \<or> (\<exists>k args. fst (handle_command pf pn s fs inp now_name now line) =
          fst (adjust_settings pf pn s k args))
   \<or> (\<exists>f. fst (handle_command pf pn s fs inp now_name now line) =
          fst (load_conversation s fs inp f))"
proof -
  define P where "P x \<longleftrightarrow> x = s \<or> x = fst (clear_history s)
      \<or> (\<exists>k args. x = fst (adjust_settings pf pn s k args))
      \<or> (\<exists>f. x = fst (load_conversation s fs inp f))" for x
  have Ps: "P s" by (simp add: P_def)
  have Pc: "P (fst (clear_history s))" by (simp add: P_def)
  have Pl: "P (fst (load_conversation s fs inp f))" for f unfolding P_def by blast
  have Pa: "P (fst (adjust_command pf pn s fs inp k args missing))" for k args missing
    using adjust_command_session [of pf pn s fs inp k args missing] unfolding P_def by metis
  have "P (fst (handle_command pf pn s fs inp now_name now line))"
  proof (cases "py_split1 (py_strip line)")
    case Nil
    then show ?thesis using Ps by (simp add: handle_command_def)
  next
    case (Cons tok others)
    have c: "P (fst (case clear_history s of (s', out) \<Rightarrow> (s', fs, out, inp, Returned True)))"
      using Pc by (cases "clear_history s") simp
    have sv: "P (fst (case save_conversation s fs now_name now a of
                  (fs', out) \<Rightarrow> (s, fs', out, inp, Returned True)))" for a
      using Ps by (cases "save_conversation s fs now_name now a") simp
    have ld: "P (fst (case load_conversation s fs inp f of
                     (s', out, inp') \<Rightarrow> (s', fs, out, inp', Returned True)))" for f
      using Pl [of f] by (cases "load_conversation s fs inp f") simp
    show ?thesis
      unfolding handle_command_def Cons
      using Ps Pa c sv ld by (simp add: Let_def)
  qed
  then show ?thesis by (simp add: P_def)
qed

lemma handle_command_reachable:
  assumes "reachable pf pn s"
  shows "reachable pf pn (fst (handle_command pf pn s fs inp now_name now line))"
  using handle_command_session [of pf pn s fs inp now_name now line] assms
  by (auto intro: reachable.cleared reachable.adjusted reachable.loaded)

text \<open>Two commands of the operator, evaluated: a load, which hands the file name to
  \<open>load_conversation\<close>, and a token limit that is not positive, which is refused.\<close>

lemma split_load_bad: "py_split1 (py_strip ''/load bad.json'') = [''/load'', ''bad.json'']"
  by code_simp

lemma split_tokens: "py_split1 (py_strip ''/tokens -5'') = [''/tokens'', ''-5'']"
  by code_simp

lemma lower_load: "py_lower ''/load'' = ''/load''"
  by code_simp

lemma lower_tokens: "py_lower ''/tokens'' = ''/tokens''"
  by code_simp

lemma strip_bad: "py_strip ''bad.json'' = ''bad.json''"
  by code_simp

lemma strip_minus5: "py_strip ''-5'' = ''-5''"
  by code_simp

lemma load_command_example:
  "handle_command float_of int_of fresh_bot (one_file ''bad.json'' invalid_doc) [''yes'']
       ten_oclock ten_oclock ''/load bad.json'' =
     (case load_conversation fresh_bot (one_file ''bad.json'' invalid_doc) [''yes''] ''bad.json'' of
        (s', out, inp') \<Rightarrow> (s', one_file ''bad.json'' invalid_doc, out, inp', Returned True))"
  by (simp add: handle_command_def split_load_bad lower_load strip_bad Let_def)

lemma tokens_command_example:
  "handle_command float_of int_of fresh_bot no_files [] ten_oclock ten_oclock ''/tokens -5'' =
     (fresh_bot, no_files, [Err_tokens_positive], [], Returned True)"
  by (simp add: handle_command_def split_tokens lower_tokens strip_minus5 adjust_command_def
      adjust_settings_def int_of_def Let_def)

section \<open>Clearing the history\<close>

text \<open>
  Claim C8. Whatever the history was, \<open>clear_history\<close> leaves the one-entry history
  made of the developer message carrying the current system prompt (the empty string
  when the prompt is absent), and it changes neither the statistics nor the
  configuration.
\<close>

theorem clear_history_resets:
  "conversation_history (fst (clear_history s)) =
     [PDict [(''role'', PStr ''developer''),
             (''content'', py_or (system_prompt (settings s)) (PStr ''''))]]
   \<and> stats (fst (clear_history s)) = stats s
   \<and> settings (fst (clear_history s)) = settings s
   \<and> (\<forall>p. system_prompt (settings s) = PStr p \<longrightarrow>
          conversation_history (fst (clear_history s)) =
            [PDict [(''role'', PStr ''developer''), (''content'', PStr p)]])
   \<and> (system_prompt (settings s) = PNone \<longrightarrow>
          conversation_history (fst (clear_history s)) =
            [PDict [(''role'', PStr ''developer''), (''content'', PStr '''')]])"
  by (simp add: clear_history_def message_def py_or_def)

theorem clear_history_resets_witness:
  "system_prompt (settings talked_bot) = PStr ''Be brief.''
   \<and> length (conversation_history talked_bot) = 3
   \<and> conversation_history (fst (clear_history talked_bot)) =
       [PDict [(''role'', PStr ''developer''), (''content'', PStr ''Be brief.'')]]
   \<and> stats (fst (clear_history talked_bot)) =
       \<lparr>total_messages = 1, total_tokens_used = 12, session_start = nine_oclock\<rparr>"
  using clear_history_resets [of talked_bot]
  by (simp add: talked_bot_def py_or_def message_def)

section \<open>Setting the temperature\<close>

text \<open>
  Claim C7. Setting the temperature to the text \<open>v\<close> succeeds, storing the number
  read, exactly when \<open>float\<close> reads \<open>v\<close> as a number \<open>r\<close> with \<open>0 \<le> r \<le> 2\<close>.
  In every other case the session is left as it was and one of the two error messages
  is printed.
\<close>

theorem temperature_set_iff:
  "(fst (snd (adjust_settings py_float py_int s ''temperature'' v)) = [Temperature_set t]
      \<longleftrightarrow> (\<exists>r. py_float v = Some t \<and> t = Finite r \<and> 0 \<le> r \<and> r \<le> 2))
   \<and> (py_float v = Some (Finite r) \<and> 0 \<le> r \<and> r \<le> 2 \<longrightarrow>
        adjust_settings py_float py_int s ''temperature'' v =
          (s\<lparr>settings := (settings s)\<lparr>temperature := PFloat (Finite r)\<rparr>\<rparr>,
           [Temperature_set (Finite r)], None))
   \<and> (\<not> (\<exists>r. py_float v = Some (Finite r) \<and> 0 \<le> r \<and> r \<le> 2) \<longrightarrow>
        fst (adjust_settings py_float py_int s ''temperature'' v) = s
        \<and> fst (snd (adjust_settings py_float py_int s ''temperature'' v))
            \<in> {[Err_temperature_invalid], [Err_temperature_range]}
        \<and> snd (snd (adjust_settings py_float py_int s ''temperature'' v)) = None)"
proof (cases "py_float v")
  case None
  then show ?thesis by (simp add: adjust_settings_def)
next
  case (Some x)
  then show ?thesis
    by (cases "temp_in_range x") (auto simp: adjust_settings_def temp_in_range_iff)
qed

theorem temperature_set_iff_witness:
  "float_of ''0.5'' = Some (Finite (1 / 2))
   \<and> adjust_settings float_of int_of fresh_bot ''temperature'' ''0.5'' =
        (fresh_bot\<lparr>settings := (settings fresh_bot)\<lparr>temperature := PFloat (Finite (1 / 2))\<rparr>\<rparr>,
         [Temperature_set (Finite (1 / 2))], None)
   \<and> float_of ''3'' = Some (Finite 3)
   \<and> fst (adjust_settings float_of int_of fresh_bot ''temperature'' ''3'') = fresh_bot
   \<and> float_of ''warm'' = None
   \<and> fst (adjust_settings float_of int_of fresh_bot ''temperature'' ''warm'') = fresh_bot"
  using temperature_set_iff [of float_of int_of fresh_bot "''0.5''" "Finite (1 / 2)" "1 / 2"]
    temperature_set_iff [of float_of int_of fresh_bot "''3''" "Finite 3" 3]
    temperature_set_iff [of float_of int_of fresh_bot "''warm''" "Finite 3" 3]
  by (simp add: float_of_def)

section \<open>Setting the system prompt\<close>

lemma long_prompt_on_message:
  assumes "length v > 1000" and "conversation_history s = PDict kvs # rest"
  shows "adjust_settings py_float py_int s ''system_prompt'' v =
           (s\<lparr>settings := (settings s)\<lparr>system_prompt := PStr (take 1000 v)\<rparr>,
              conversation_history :=
                PDict (dict_set ''content'' (PStr (take 1000 v)) kvs) # rest\<rparr>,
            [Warn_prompt_truncated, Prompt_updated], None)"
proof -
  from assms(1) have ne: "v \<noteq> []" by auto
  show ?thesis
    using assms ne by (simp add: adjust_settings_def set_history_content_dict Let_def)
qed


text \<open>
  Claim C9. In every reachable session, for a prompt of more than 1000 characters,
  \<open>adjust_settings\<close> prints the warning, stores the first 1000 characters in the
  configuration and writes the same text into the content of the first history entry,
  all in the one call: in the session it returns, the configuration and the first
  entry agree, and nothing is raised.
\<close>

theorem long_prompt_truncated:
  assumes "reachable py_float py_int s" and "length v > 1000"
  shows "\<exists>kvs rest.
           conversation_history s = PDict kvs # rest
           \<and> adjust_settings py_float py_int s ''system_prompt'' v =
               (s\<lparr>settings := (settings s)\<lparr>system_prompt := PStr (take 1000 v)\<rparr>,
                  conversation_history :=
                    PDict (dict_set ''content'' (PStr (take 1000 v)) kvs) # rest\<rparr>,
                [Warn_prompt_truncated, Prompt_updated], None)
           \<and> length (take 1000 v) = 1000
           \<and> system_prompt (settings (fst (adjust_settings py_float py_int s ''system_prompt'' v)))
               = PStr (take 1000 v)
           \<and> first_content (fst (adjust_settings py_float py_int s ''system_prompt'' v))
               = Inr (PStr (take 1000 v))"
proof -
  obtain kvs rest where h: "conversation_history s = PDict kvs # rest"
    using reachable_history_head [OF assms(1)] by blast
  have eq: "adjust_settings py_float py_int s ''system_prompt'' v =
           (s\<lparr>settings := (settings s)\<lparr>system_prompt := PStr (take 1000 v)\<rparr>,
              conversation_history :=
                PDict (dict_set ''content'' (PStr (take 1000 v)) kvs) # rest\<rparr>,
            [Warn_prompt_truncated, Prompt_updated], None)"
    using assms(2) h by (rule long_prompt_on_message)
  have len: "length (take 1000 v) = 1000" using assms(2) by simp
  have "first_content (fst (adjust_settings py_float py_int s ''system_prompt'' v))
               = Inr (PStr (take 1000 v))"
    unfolding eq by (simp add: first_content_def map_of_dict_set)
  moreover have "system_prompt (settings (fst (adjust_settings py_float py_int s ''system_prompt'' v)))
               = PStr (take 1000 v)"
    unfolding eq by simp
  ultimately show ?thesis using h eq len by blast
qed

theorem long_prompt_truncated_witness:
  "reachable float_of int_of fresh_bot
   \<and> length (replicate 1500 CHR ''a'') > 1000
   \<and> adjust_settings float_of int_of fresh_bot ''system_prompt'' (replicate 1500 CHR ''a'') =
       (fresh_bot\<lparr>settings := (settings fresh_bot)\<lparr>system_prompt := PStr (replicate 1000 CHR ''a'')\<rparr>,
          conversation_history :=
            [PDict [(''role'', PStr ''developer''),
                    (''content'', PStr (replicate 1000 CHR ''a''))]]\<rparr>,
        [Warn_prompt_truncated, Prompt_updated], None)
   \<and> first_content (fst (adjust_settings float_of int_of fresh_bot ''system_prompt''
         (replicate 1500 CHR ''a''))) = Inr (PStr (replicate 1000 CHR ''a''))"
proof -
  have h1: "length (replicate 1500 CHR ''a'') > 1000" by simp
  have h2: "conversation_history fresh_bot =
       [PDict [(''role'', PStr ''developer''), (''content'', PStr ''Be brief.'')]]"
    by (simp add: fresh_bot_def message_def)
  show ?thesis
    using h1 reachable_fresh_bot long_prompt_truncated [OF reachable_fresh_bot h1]
    by (auto simp: h2)
qed

section \<open>Loading with the configuration kept\<close>

text \<open>
  Claim C6. When the file decodes (its settings parse and its conversation can be
  iterated) and the operator does not answer yes to the question about the
  configuration, \<open>load_conversation\<close> leaves the whole configuration as it was,
  so the model, the token limit and the temperature too, and the history after its
  first entry becomes the loaded conversation.
\<close>

theorem load_declined_keeps_settings:
  assumes "fs f = Json data"
    and "py_getitem data ''settings'' = Inr sd"
    and "from_dict sd = Inr setting"
    and "py_getitem data ''conversation'' = Inr conv"
    and "py_iter conv = Some items"
    and "\<not> confirmed line"
  shows "load_conversation s fs (line # rest) f =
           (s\<lparr>conversation_history :=
                message ''system'' (py_or (system_prompt setting) (PStr '''')) # items\<rparr>,
            [Warn_overwrite_settings, Ask_overwrite_settings, Settings_kept, Loaded f,
             Loaded_count (length items)], rest)
         \<and> settings (fst (load_conversation s fs (line # rest) f)) = settings s
         \<and> drop 1 (conversation_history (fst (load_conversation s fs (line # rest) f))) = items
         \<and> (\<forall>xs. conv = PList xs \<longrightarrow>
              drop 1 (conversation_history (fst (load_conversation s fs (line # rest) f))) = xs)"
proof -
  have "load_conversation s fs (line # rest) f =
           (s\<lparr>conversation_history :=
                message ''system'' (py_or (system_prompt setting) (PStr '''')) # items\<rparr>,
            [Warn_overwrite_settings, Ask_overwrite_settings, Settings_kept, Loaded f,
             Loaded_count (length items)], rest)"
    using assms
    by (simp add: load_conversation_decoded [of fs f data sd setting] load_rest_def)
  then show ?thesis using assms(5) by auto
qed

theorem load_declined_keeps_settings_witness:
  "load_conversation fresh_bot (one_file ''out.json'' (conversation_data talked_bot ten_oclock))
       [''no''] ''out.json'' =
     (fresh_bot\<lparr>conversation_history :=
        [message ''system'' (PStr ''Be brief.''), message ''user'' (PStr ''Hi''),
         message ''assistant'' (PStr ''Hello.'')]\<rparr>,
      [Warn_overwrite_settings, Ask_overwrite_settings, Settings_kept, Loaded ''out.json'',
       Loaded_count 2], [])"
proof -
  let ?data = "conversation_data talked_bot ten_oclock"
  have h1: "one_file ''out.json'' ?data ''out.json'' = Json ?data"
    by (simp add: one_file_def)
  have h2: "py_getitem ?data ''settings'' = Inr (to_dict (settings talked_bot))"
    by (simp add: conversation_data_def)
  have h3: "from_dict (to_dict (settings talked_bot)) = Inr (settings talked_bot)"
    by (rule from_dict_to_dict)
  have h4: "py_getitem ?data ''conversation'' =
      Inr (PList [message ''user'' (PStr ''Hi''), message ''assistant'' (PStr ''Hello.'')])"
    by (simp add: conversation_data_def talked_bot_def)
  have h5: "py_iter (PList [message ''user'' (PStr ''Hi''), message ''assistant'' (PStr ''Hello.'')])
      = Some [message ''user'' (PStr ''Hi''), message ''assistant'' (PStr ''Hello.'')]"
    by simp
  have h6: "\<not> confirmed ''no''" by code_simp
  show ?thesis
    using load_declined_keeps_settings [where fs = "one_file ''out.json'' ?data"
        and f = "''out.json''" and s = fresh_bot and rest = "[]", OF h1 h2 h3 h4 h5 h6]
    by (simp add: talked_bot_def py_or_def)
qed

section \<open>The question about overwriting the history\<close>

lemma load_rest_never_asks_overwrite:
  assumes "Warn_overwrite_history \<notin> set out" "Ask_overwrite_history \<notin> set out"
    "Load_cancelled \<notin> set out"
  shows "Warn_overwrite_history \<notin> set (fst (snd (load_rest s1 data setting inp out f)))
    \<and> Ask_overwrite_history \<notin> set (fst (snd (load_rest s1 data setting inp out f)))
    \<and> Load_cancelled \<notin> set (fst (snd (load_rest s1 data setting inp out f)))"
  using assms
  by (auto simp: load_rest_def Let_def split: sum.splits option.splits list.splits)

lemma load_rest_history:
  assumes "py_getitem data ''conversation'' = Inr conv" and "py_iter conv = Some items"
  shows "conversation_history (fst (load_rest s1 data setting inp out f)) =
           conversation_history s1 @ items"
  using assms
  by (auto simp: load_rest_def Let_def split: list.splits)

text \<open>
  Claim C10. \<open>load_conversation\<close> tests the length of the history after it has
  replaced it by a single entry, so for no session, file and input does it print the
  warning or the question about overwriting the history, nor cancel the load; and for
  every file that decodes, the history it leaves is the loaded one, whatever the
  session held before and whatever the operator types.
\<close>

theorem overwrite_confirmation_unreachable:
  "Warn_overwrite_history \<notin> set (fst (snd (load_conversation s fs inp f)))
   \<and> Ask_overwrite_history \<notin> set (fst (snd (load_conversation s fs inp f)))
   \<and> Load_cancelled \<notin> set (fst (snd (load_conversation s fs inp f)))
   \<and> (\<forall>data sd setting conv items.
         fs f = Json data \<and> py_getitem data ''settings'' = Inr sd
         \<and> from_dict sd = Inr setting
         \<and> py_getitem data ''conversation'' = Inr conv \<and> py_iter conv = Some items
         \<longrightarrow> conversation_history (fst (load_conversation s fs inp f)) =
               message ''system'' (py_or (system_prompt setting) (PStr '''')) # items)"
proof (cases "\<exists>data sd setting. fs f = Json data \<and> py_getitem data ''settings'' = Inr sd
                  \<and> from_dict sd = Inr setting")
  case True
  then obtain data sd setting where d: "fs f = Json data"
      "py_getitem data ''settings'' = Inr sd" "from_dict sd = Inr setting"
    by blast
  let ?s1 = "s\<lparr>conversation_history :=
                  [message ''system'' (py_or (system_prompt setting) (PStr []))]\<rparr>"
  have eq: "load_conversation s fs inp f = load_rest ?s1 data setting inp [] f"
    using d by (rule load_conversation_decoded [of fs f data sd setting])
  have quiet: "Warn_overwrite_history \<notin> set (fst (snd (load_conversation s fs inp f)))
    \<and> Ask_overwrite_history \<notin> set (fst (snd (load_conversation s fs inp f)))
    \<and> Load_cancelled \<notin> set (fst (snd (load_conversation s fs inp f)))"
    unfolding eq by (rule load_rest_never_asks_overwrite) simp_all
  have hist: "conversation_history (fst (load_conversation s fs inp f)) =
               message ''system'' (py_or (system_prompt setting) (PStr '''')) # items"
    if "py_getitem data ''conversation'' = Inr conv" "py_iter conv = Some items"
    for conv items
    unfolding eq using load_rest_history [OF that, of ?s1 setting inp "[]" f] by simp
  show ?thesis using quiet hist d by auto
next
  case False
  then obtain e where "load_conversation s fs inp f = (s, [Load_failed e], inp)"
    using load_conversation_undecoded [of fs f s inp] by blast
  with False show ?thesis by auto
qed

theorem overwrite_confirmation_unreachable_witness:
  "length (conversation_history talked_bot) = 3
   \<and> load_conversation talked_bot (one_file ''old.json'' invalid_doc) [] ''old.json'' =
       (talked_bot\<lparr>conversation_history :=
           [message ''system'' (PStr (replicate 1500 CHR ''a''))]\<rparr>,
        [Warn_overwrite_settings, Ask_overwrite_settings, Load_failed EOFError], [])
   \<and> Ask_overwrite_history \<notin> set (fst (snd
        (load_conversation talked_bot (one_file ''old.json'' invalid_doc) [] ''old.json'')))"
proof -
  have ev: "load_conversation talked_bot (one_file ''old.json'' invalid_doc) [] ''old.json'' =
       (talked_bot\<lparr>conversation_history :=
           [message ''system'' (PStr (replicate 1500 CHR ''a''))]\<rparr>,
        [Warn_overwrite_settings, Ask_overwrite_settings, Load_failed EOFError], [])"
    by (simp add: load_conversation_def one_file_def invalid_doc_def from_dict_def
        load_rest_def py_or_def)
  show ?thesis
    using overwrite_confirmation_unreachable
      [of talked_bot "one_file ''old.json'' invalid_doc" "[]" "''old.json''"] ev
    by (simp add: talked_bot_def)
qed

section \<open>A failed remote call\<close>

text \<open>An exchange that the remote service answers is counted.\<close>

lemma chat_success_counted:
  "create \<lparr>req_model = model (settings s),
                   req_input = conversation_history s @ [message ''user'' (PStr msg)],
                   req_temperature = temperature (settings s),
                   req_max_output_tokens = max_tokens (settings s)\<rparr> = Inr r
   \<Longrightarrow> total_messages (stats (fst (chat create s msg))) = total_messages (stats s) + 1"
  by (simp add: chat_def Let_def split: option.splits)

text \<open>
  Claim C4, as the code has it. When the remote call raises, \<open>chat\<close> keeps the user
  message at the end of the history, appends no assistant message, returns the error
  string built from the exception instead of raising, and leaves the statistics as
  they were: the failed exchange is not counted in \<open>total_messages\<close>.
\<close>

theorem chat_failure_not_counted:
  assumes "create \<lparr>req_model = model (settings s),
                   req_input = conversation_history s @ [message ''user'' (PStr msg)],
                   req_temperature = temperature (settings s),
                   req_max_output_tokens = max_tokens (settings s)\<rparr> = Inl e"
  shows "chat create s msg =
           (s\<lparr>conversation_history :=
                conversation_history s @ [message ''user'' (PStr msg)]\<rparr>,
            Error_string e)
         \<and> stats (fst (chat create s msg)) = stats s
         \<and> settings (fst (chat create s msg)) = settings s"
  using assms by (simp add: chat_def)

theorem chat_failure_not_counted_witness:
  "chat failing talked_bot ''More?'' =
     (talked_bot\<lparr>conversation_history :=
        [message ''developer'' (PStr ''Be brief.''), message ''user'' (PStr ''Hi''),
         message ''assistant'' (PStr ''Hello.''), message ''user'' (PStr ''More?'')]\<rparr>,
      Error_string (APIError ''timeout''))
   \<and> stats (fst (chat failing talked_bot ''More?'')) =
       \<lparr>total_messages = 1, total_tokens_used = 12, session_start = nine_oclock\<rparr>"
proof -
  have h: "failing \<lparr>req_model = model (settings talked_bot),
                   req_input = conversation_history talked_bot @ [message ''user'' (PStr ''More?'')],
                   req_temperature = temperature (settings talked_bot),
                   req_max_output_tokens = max_tokens (settings talked_bot)\<rparr>
           = Inl (APIError ''timeout'')"
    by (simp add: failing_def)
  show ?thesis
    using chat_failure_not_counted [where create = failing and s = talked_bot
        and msg = "''More?''", OF h]
    by (simp add: talked_bot_def)
qed

text \<open>
  Claim C4 as stated says the failed turn is still counted. In the session after one
  exchange, a failing call leaves \<open>total_messages\<close> at 1, and the history ends with
  the user message, the error string being the value returned.
\<close>

theorem chat_failure_counted_counterexample:
  "total_messages (stats talked_bot) = 1
   \<and> total_messages (stats (fst (chat failing talked_bot ''More?''))) = 1
   \<and> total_messages (stats (fst (chat failing talked_bot ''More?'')))
       \<noteq> total_messages (stats talked_bot) + 1
   \<and> snd (chat failing talked_bot ''More?'') = Error_string (APIError ''timeout'')
   \<and> message ''assistant'' (PStr ''Hello.'') =
       last (butlast (conversation_history (fst (chat failing talked_bot ''More?''))))
   \<and> last (conversation_history (fst (chat failing talked_bot ''More?'')))
       = message ''user'' (PStr ''More?'')"
  by (simp add: chat_def failing_def talked_bot_def)

section \<open>Loading a file without a conversation\<close>

text \<open>
  Claim C3, evaluated where it fails. The file has complete settings and no
  \<open>conversation\<close> key. The load prints the KeyError, and the session it leaves is not
  the one before: the history has already been replaced by the single system entry
  built from the file, and the two messages of the exchange are gone.
\<close>

theorem load_without_conversation_drops_history:
  "conversation_history talked_bot =
     [message ''developer'' (PStr ''Be brief.''), message ''user'' (PStr ''Hi''),
      message ''assistant'' (PStr ''Hello.'')]
   \<and> py_getitem truncated_doc ''conversation'' = Inl (KeyError ''conversation'')
   \<and> load_conversation talked_bot (one_file ''old.json'' truncated_doc) [''yes''] ''old.json'' =
       (talked_bot\<lparr>conversation_history := [message ''system'' (PStr ''Be kind.'')]\<rparr>,
        [Load_failed (KeyError ''conversation'')], [''yes''])
   \<and> fst (load_conversation talked_bot (one_file ''old.json'' truncated_doc) [''yes''] ''old.json'')
       \<noteq> talked_bot"
proof -
  have ev: "load_conversation talked_bot (one_file ''old.json'' truncated_doc) [''yes''] ''old.json'' =
       (talked_bot\<lparr>conversation_history := [message ''system'' (PStr ''Be kind.'')]\<rparr>,
        [Load_failed (KeyError ''conversation'')], [''yes''])"
    by (simp add: load_conversation_def one_file_def truncated_doc_def from_dict_def
        load_rest_def py_or_def)
  have ne: "talked_bot\<lparr>conversation_history := [message ''system'' (PStr ''Be kind.'')]\<rparr>
      \<noteq> talked_bot"
  proof
    assume "talked_bot\<lparr>conversation_history := [message ''system'' (PStr ''Be kind.'')]\<rparr>
      = talked_bot"
    then have "conversation_history
        (talked_bot\<lparr>conversation_history := [message ''system'' (PStr ''Be kind.'')]\<rparr>)
      = conversation_history talked_bot" by simp
    then show False by (simp add: talked_bot_def)
  qed
  show ?thesis unfolding ev using ne
    by (simp add: talked_bot_def truncated_doc_def)
qed

section \<open>The role of the first entry after a load\<close>

text \<open>
  Claim C2, evaluated where it fails. At startup the first entry of the history has
  the role \<open>developer\<close>; after a conversation saved by the program is loaded, the
  first entry has the role \<open>system\<close>.
\<close>

theorem load_puts_system_role_first:
  "first_role fresh_bot = Inr (PStr ''developer'')
   \<and> first_role (fst (load_conversation fresh_bot
        (one_file ''out.json'' (conversation_data talked_bot ten_oclock)) [''yes''] ''out.json''))
      = Inr (PStr ''system'')
   \<and> fst (snd (load_conversation fresh_bot
        (one_file ''out.json'' (conversation_data talked_bot ten_oclock)) [''yes''] ''out.json''))
      = [Warn_overwrite_settings, Ask_overwrite_settings,
         Settings_updated (to_dict (settings talked_bot)), Loaded ''out.json'', Loaded_count 2]"
  by (simp add: load_conversation_def one_file_def conversation_data_def from_dict_to_dict
        load_rest_def py_or_def first_role_def fresh_bot_def talked_bot_def message_def
        confirmed_yes)

section \<open>The configuration after a load\<close>

text \<open>
  Claim C5, evaluated where it fails. The configuration at startup obeys the four
  rules. After the load of a file whose settings break all four, confirmed by the
  operator, the configuration of the session is the file's, unchecked.
\<close>

theorem load_applies_invalid_settings:
  "settings_valid (available_models fresh_bot) (settings fresh_bot)
   \<and> settings (fst (load_conversation fresh_bot (one_file ''bad.json'' invalid_doc)
        [''yes''] ''bad.json''))
      = \<lparr>model = PStr ''no-such-model'', max_tokens = PInt (- 5),
         temperature = PFloat (Finite 99), system_prompt = PStr (replicate 1500 CHR ''a'')\<rparr>
   \<and> \<not> settings_valid (available_models (fst (load_conversation fresh_bot
            (one_file ''bad.json'' invalid_doc) [''yes''] ''bad.json'')))
          (settings (fst (load_conversation fresh_bot (one_file ''bad.json'' invalid_doc)
            [''yes''] ''bad.json'')))"
  by (simp add: load_conversation_def one_file_def invalid_doc_def from_dict_def
        load_rest_def py_or_def fresh_bot_def settings_valid_def default_models_def confirmed_yes)

section \<open>Saving and loading\<close>

lemma save_conversation_writes:
  assumes "fs f \<noteq> Denied"
  shows "save_conversation s fs now_name now (Some f) =
           (fs(f := Json (conversation_data s now)), [Saved f])"
  using assms by (simp add: save_conversation_def Let_def split: fnode.splits)

lemma conversation_data_keys:
  "py_getitem (conversation_data s now) ''settings'' = Inr (to_dict (settings s))"
  "py_getitem (conversation_data s now) ''conversation'' =
     Inr (PList (drop 1 (conversation_history s)))"
  "py_getitem (conversation_data s now) ''timestamp'' = Inr (PStr (isoformat now))"
  "py_getitem (conversation_data s now) ''stats'' =
     Inr (PDict [(''total_messages'', PInt (total_messages (stats s))),
                 (''total_tokens_used'', PInt (total_tokens_used (stats s))),
                 (''session_start'', PStr (isoformat (session_start (stats s))))])"
  by (simp_all add: conversation_data_def)

text \<open>
  Claim C1, as the code has it. A conversation saved from the session \<open>s\<close> and
  loaded into a session \<open>s0\<close> restores the conversation of \<open>s\<close> after its first
  entry, and the configuration of \<open>s\<close> when the operator confirms it (the one of
  \<open>s0\<close> stays otherwise). The statistics and the timestamp that the save wrote are
  not read: the statistics stay those of \<open>s0\<close>.
\<close>

theorem save_load_restores_settings_and_conversation:
  assumes "fs f \<noteq> Denied"
  shows "load_conversation s0 (fst (save_conversation s fs now_name now (Some f))) (line # rest) f =
           (s0\<lparr>conversation_history :=
                 message ''system'' (py_or (system_prompt (settings s)) (PStr ''''))
                   # drop 1 (conversation_history s),
               settings := (if confirmed line then settings s else settings s0)\<rparr>,
            [Warn_overwrite_settings, Ask_overwrite_settings,
             if confirmed line then Settings_updated (to_dict (settings s)) else Settings_kept,
             Loaded f, Loaded_count (length (drop 1 (conversation_history s)))],
            rest)
         \<and> drop 1 (conversation_history (fst (load_conversation s0
               (fst (save_conversation s fs now_name now (Some f))) (line # rest) f)))
             = drop 1 (conversation_history s)
         \<and> stats (fst (load_conversation s0
               (fst (save_conversation s fs now_name now (Some f))) (line # rest) f))
             = stats s0"
proof -
  let ?data = "conversation_data s now"
  let ?fs = "fs(f := Json ?data)"
  have sv: "fst (save_conversation s fs now_name now (Some f)) = ?fs"
    using assms by (simp add: save_conversation_writes)
  have d: "?fs f = Json ?data" by simp
  have eq: "load_conversation s0 ?fs (line # rest) f =
      load_rest (s0\<lparr>conversation_history :=
                          [message ''system'' (py_or (system_prompt (settings s)) (PStr []))]\<rparr>)
             ?data (settings s) (line # rest) [] f"
    using load_conversation_decoded [of ?fs f ?data "to_dict (settings s)" "settings s"
        s0 "line # rest"]
    by (simp add: conversation_data_keys from_dict_to_dict)
  show ?thesis
    unfolding sv eq
    by (simp add: load_rest_def conversation_data_keys)
qed

theorem save_load_restores_settings_and_conversation_witness:
  "no_files ''out.json'' \<noteq> Denied
   \<and> load_conversation fresh_bot
        (fst (save_conversation talked_bot no_files ten_oclock ten_oclock (Some ''out.json'')))
        [''yes''] ''out.json'' =
       (fresh_bot\<lparr>conversation_history :=
           [message ''system'' (PStr ''Be brief.''), message ''user'' (PStr ''Hi''),
            message ''assistant'' (PStr ''Hello.'')],
          settings := settings talked_bot\<rparr>,
        [Warn_overwrite_settings, Ask_overwrite_settings,
         Settings_updated (to_dict (settings talked_bot)), Loaded ''out.json'', Loaded_count 2],
        [])"
proof -
  have h: "no_files ''out.json'' \<noteq> Denied" by (simp add: no_files_def)
  show ?thesis
    using h save_load_restores_settings_and_conversation [where fs = no_files
        and f = "''out.json''" and ?s0.0 = fresh_bot and s = talked_bot
        and now_name = ten_oclock and now = ten_oclock and line = "''yes''" and rest = "[]", OF h]
      confirmed_yes
    by (simp add: talked_bot_def py_or_def)
qed

text \<open>
  Claim C1 as stated has the statistics come back too. The session after one exchange
  is saved, its file holding \<open>total_messages = 1\<close>; loaded into the session of a
  new start, the statistics are those of the new start, not the saved ones.
\<close>

theorem save_load_stats_counterexample:
  "py_getitem (conversation_data talked_bot ten_oclock) ''stats'' =
     Inr (PDict [(''total_messages'', PInt 1), (''total_tokens_used'', PInt 12),
                 (''session_start'', PStr ''2025-01-01T09:00:00'')])
   \<and> stats talked_bot =
       \<lparr>total_messages = 1, total_tokens_used = 12, session_start = nine_oclock\<rparr>
   \<and> stats (fst (load_conversation fresh_bot
        (fst (save_conversation talked_bot no_files ten_oclock ten_oclock (Some ''out.json'')))
        [''yes''] ''out.json'')) =
       \<lparr>total_messages = 0, total_tokens_used = 0, session_start = nine_oclock\<rparr>
   \<and> stats (fst (load_conversation fresh_bot
        (fst (save_conversation talked_bot no_files ten_oclock ten_oclock (Some ''out.json'')))
        [''yes''] ''out.json'')) \<noteq> stats talked_bot"
  by (simp add: save_conversation_def no_files_def load_conversation_def
      conversation_data_def from_dict_to_dict load_rest_def confirmed_yes
      talked_bot_def fresh_bot_def nine_oclock_def Let_def)

end
